theory Spec2Isabelle
  imports Main "HOL-Library.Word" "HOL-Library.Sublist" "HOL-Library.AList"
begin

section \<open>Values exchanged with the storage service\<close>

text \<open>
  The program is \<^verbatim>\<open>src/app/main.py\<close>: a FastAPI router whose handlers each make
  calls on the Google Drive client \<^verbatim>\<open>drive_service\<close> and reshape the answer.
  Python strings are \<open>string\<close>; the bytes of a payload are a list of 8-bit words; the
  dictionaries the client returns for a file resource (\<^verbatim>\<open>id\<close>, \<^verbatim>\<open>name\<close>,
  \<^verbatim>\<open>mimeType\<close>, \<^verbatim>\<open>modifiedTime\<close>, all strings) are association lists.
\<close>

type_synonym bytes = "8 word list"

type_synonym py_dict = "(string \<times> string) list"

text \<open>\<^verbatim>\<open>d.get(k)\<close>: the value, or \<^verbatim>\<open>None\<close> when the key is missing.\<close>

definition dict_get :: "py_dict \<Rightarrow> string \<Rightarrow> string option" where
  "dict_get d k = map_of d k"

text \<open>
  The exceptions the handlers can meet, all instances of Python's \<^verbatim>\<open>Exception\<close>:
  the \<^verbatim>\<open>RuntimeError\<close> of the start-up check, the \<^verbatim>\<open>KeyError\<close> of a subscript on a
  missing key, and whatever a call on the client raises (\<open>SdkError\<close>, carrying the text
  that \<^verbatim>\<open>str(e)\<close> gives). \<open>py_str\<close> is \<^verbatim>\<open>str(e)\<close>; for a \<^verbatim>\<open>KeyError\<close> that is the
  \<^verbatim>\<open>repr\<close> of the key, which for the keys used here (\<^verbatim>\<open>id\<close>, \<^verbatim>\<open>name\<close>) is the key
  between single quotes.
\<close>

datatype py_exception = RuntimeError string | KeyError string | SdkError string

fun py_str :: "py_exception \<Rightarrow> string" where
  "py_str (RuntimeError m) = m"
| "py_str (KeyError k) = [CHR 0x27] @ k @ [CHR 0x27]"
| "py_str (SdkError m) = m"

text \<open>\<^verbatim>\<open>d[k]\<close>: the value, or a \<^verbatim>\<open>KeyError\<close>.\<close>

definition dict_item :: "py_dict \<Rightarrow> string \<Rightarrow> py_exception + string" where
  "dict_item d k = (case map_of d k of None \<Rightarrow> Inl (KeyError k) | Some v \<Rightarrow> Inr v)"

text \<open>
  How a request ends when it does not return a body: with the \<^verbatim>\<open>HTTPException\<close> a
  handler raises (status code and detail), or with an exception no handler caught, which
  leaves the route function as it is.
\<close>

datatype failure = HTTPException (status_code: int) (detail: string) | Uncaught py_exception

text \<open>The body and the media object of the \<^verbatim>\<open>create\<close> call (lines 106--112).\<close>

record file_metadata =
  md_name :: "string option"
  md_parents :: "string list"

record media_upload =
  media_fd :: bytes
  media_mimetype :: "string option"

section \<open>The storage service as a parameter\<close>

text \<open>
  The Drive client is not part of the repository. Each call the handlers make on it is a
  field of the record below: a function of the call's arguments and of the state \<open>'s\<close> of
  the remote service, giving the exception raised or the value returned, and the state
  afterwards. \<open>'d\<close> is the state of a \<^verbatim>\<open>MediaIoBaseDownload\<close> object:
  \<open>media_downloader\<close> stands for lines 70--72 (\<^verbatim>\<open>get_media\<close> and the constructor, which
  contact nothing), and \<open>next_chunk\<close> gives the bytes it writes to the buffer, the
  \<^verbatim>\<open>done\<close> flag and the downloader afterwards (the progress value, which the handler
  ignores, is left out).
\<close>

record ('s, 'd) drive_service =
  files_list :: "string \<Rightarrow> string \<Rightarrow> string \<Rightarrow> 's \<Rightarrow> (py_exception + py_dict list option) \<times> 's"
  media_downloader :: "string \<Rightarrow> 'd"
  next_chunk :: "'d \<Rightarrow> 's \<Rightarrow> (py_exception + bytes \<times> bool \<times> 'd) \<times> 's"
  files_get :: "string \<Rightarrow> string \<Rightarrow> 's \<Rightarrow> (py_exception + py_dict) \<times> 's"
  files_create :: "file_metadata \<Rightarrow> media_upload \<Rightarrow> string \<Rightarrow> 's \<Rightarrow> (py_exception + py_dict) \<times> 's"
  files_delete :: "string \<Rightarrow> 's \<Rightarrow> (py_exception + unit) \<times> 's"
  files_update :: "string \<Rightarrow> py_dict \<Rightarrow> string \<Rightarrow> 's \<Rightarrow> (py_exception + py_dict) \<times> 's"

text \<open>
  The result of \<open>files_list\<close> is the value under the key \<^verbatim>\<open>files\<close> of the returned
  dictionary, \<open>None\<close> when the key is missing.
\<close>

section \<open>Start-up (lines 13--31 and the route decorators)\<close>

text \<open>
  \<open>env\<close> is the process environment as \<^verbatim>\<open>os.getenv\<close> reads it on lines 19--20, that is
  after \<^verbatim>\<open>load_dotenv()\<close>. \<open>make_client\<close> stands for lines 28--31 (loading the
  credentials and building the client), which may raise. The module's execution is
  modelled with the table of routes registered so far: the decorators of lines 34--141 run
  after the client is built.
\<close>

definition py_truthy :: "string option \<Rightarrow> bool" where
  "py_truthy v = (case v of None \<Rightarrow> False | Some x \<Rightarrow> x \<noteq> [])"

definition SCOPES :: "string list" where
  "SCOPES = [''https://www.googleapis.com/auth/drive'']"

definition app_routes :: "(string \<times> string) list" where
  "app_routes =
     [(''GET'', ''/''), (''GET'', ''/files''), (''GET'', ''/download/{file_id}''),
      (''POST'', ''/upload''), (''DELETE'', ''/delete/{file_id}''),
      (''PATCH'', ''/rename/{file_id}'')]"

record 'h app =
  FOLDER_ID :: string
  drive_handle :: 'h
  routes :: "(string \<times> string) list"

definition startup ::
  "(string \<Rightarrow> string option) \<Rightarrow> (string \<Rightarrow> string list \<Rightarrow> py_exception + 'h)
    \<Rightarrow> (py_exception + 'h app) \<times> (string \<times> string) list" where
  "startup env make_client =
     (let registered = [];
          service_account_file = env ''GOOGLE_SERVICE_ACCOUNT_FILE'';
          folder_id = env ''GOOGLE_DRIVE_FOLDER_ID''
      in if \<not> py_truthy service_account_file \<or> \<not> py_truthy folder_id
         then (Inl (RuntimeError
                 ''Missing GOOGLE_SERVICE_ACCOUNT_FILE or GOOGLE_DRIVE_FOLDER_ID in .env''),
               registered)
         else (case make_client (the service_account_file) SCOPES of
                 Inl e \<Rightarrow> (Inl e, registered)
               | Inr h \<Rightarrow>
                   (Inr \<lparr>FOLDER_ID = the folder_id, drive_handle = h, routes = app_routes\<rparr>,
                    app_routes)))"

section \<open>The handlers\<close>

subsection \<open>\<^verbatim>\<open>list_files\<close> (lines 41--58)\<close>

text \<open>The JSON body \<^verbatim>\<open>{"count": ..., "files": ...}\<close>.\<close>

record list_response =
  resp_count :: nat
  resp_files :: "py_dict list"

text \<open>Lines 47--49: the query text. \<^verbatim>\<open>if extension:\<close> is false for \<^verbatim>\<open>None\<close> and for \<^verbatim>\<open>""\<close>.\<close>

definition list_query :: "string \<Rightarrow> string option \<Rightarrow> string" where
  "list_query folder_id extension =
     (let query = [CHR 0x27] @ folder_id @ [CHR 0x27] @ '' in parents and trashed = false''
      in if py_truthy extension
         then query @ '' and name contains '' @ [CHR 0x27] @ ''.'' @ the extension @ [CHR 0x27]
         else query)"

text \<open>Lines 51--58. No \<^verbatim>\<open>try\<close> surrounds the call: what it raises is not caught.\<close>

definition list_files ::
  "string \<Rightarrow> ('s, 'd) drive_service \<Rightarrow> string option \<Rightarrow> 's \<Rightarrow> (failure + list_response) \<times> 's" where
  "list_files folder_id svc extension s =
     (case files_list svc (list_query folder_id extension) ''drive''
             ''files(id, name, mimeType, modifiedTime)'' s of
        (Inl e, s') \<Rightarrow> (Inl (Uncaught e), s')
      | (Inr results, s') \<Rightarrow>
          (let fs = (case results of None \<Rightarrow> [] | Some l \<Rightarrow> l)
           in (Inr \<lparr>resp_count = length fs, resp_files = fs\<rparr>, s')))"

subsection \<open>\<^verbatim>\<open>download_file\<close> (lines 63--89)\<close>

record streaming_response =
  body :: bytes
  media_type :: string
  headers :: "(string \<times> string) list"

text \<open>
  Lines 74--76. \<open>fh\<close> is the content of the buffer the downloader writes to. The loop
  runs for as long as the downloader answers \<^verbatim>\<open>done = False\<close>, so it is a partial
  function: \<open>None\<close> is the loop that never ends.
\<close>

partial_function (option) chunk_loop ::
  "('s, 'd) drive_service \<Rightarrow> 'd \<Rightarrow> 's \<Rightarrow> bytes \<Rightarrow> ((py_exception + bytes) \<times> 's) option" where
  "chunk_loop svc downloader s fh =
     (case next_chunk svc downloader s of
        (Inl e, s') \<Rightarrow> Some (Inl e, s')
      | (Inr (chunk, done, downloader'), s') \<Rightarrow>
          if done then Some (Inr (fh @ chunk), s')
          else chunk_loop svc downloader' s' (fh @ chunk))"

text \<open>\<^verbatim>\<open>f"{filename}"\<close> for the result of \<^verbatim>\<open>file.get("name")\<close>.\<close>

definition py_format :: "string option \<Rightarrow> string" where
  "py_format v = (case v of None \<Rightarrow> ''None'' | Some x \<Rightarrow> x)"

definition http_500 :: "py_exception \<Rightarrow> failure" where
  "http_500 e = HTTPException 500 (py_str e)"

definition download_file ::
  "('s, 'd) drive_service \<Rightarrow> string \<Rightarrow> 's \<Rightarrow> ((failure + streaming_response) \<times> 's) option" where
  "download_file svc file_id s =
     (case chunk_loop svc (media_downloader svc file_id) s [] of
        None \<Rightarrow> None
      | Some (Inl e, s') \<Rightarrow> Some (Inl (http_500 e), s')
      | Some (Inr fh, s') \<Rightarrow>
          (case files_get svc file_id ''name'' s' of
             (Inl e, s'') \<Rightarrow> Some (Inl (http_500 e), s'')
           | (Inr file, s'') \<Rightarrow>
               (let filename = dict_get file ''name''
                in Some (Inr \<lparr>body = fh, media_type = ''application/octet-stream'',
                               headers = [(''Content-Disposition'',
                                           ''attachment; filename='' @ py_format filename)]\<rparr>,
                         s''))))"

subsection \<open>\<^verbatim>\<open>upload_file\<close> (lines 94--122)\<close>

record upload_payload =
  filename :: "string option"
  content_type :: "string option"
  content :: bytes

record upload_response =
  up_id :: "string option"
  up_name :: "string option"

definition upload_file ::
  "string \<Rightarrow> ('s, 'd) drive_service \<Rightarrow> upload_payload \<Rightarrow> 's \<Rightarrow> (failure + upload_response) \<times> 's" where
  "upload_file folder_id svc file s =
     (let file_content = content file;
          metadata = \<lparr>md_name = filename file, md_parents = [folder_id]\<rparr>;
          media = \<lparr>media_fd = file_content, media_mimetype = content_type file\<rparr>
      in case files_create svc metadata media ''id, name'' s of
           (Inl e, s') \<Rightarrow> (Inl (http_500 e), s')
         | (Inr uploaded_file, s') \<Rightarrow>
             (Inr \<lparr>up_id = dict_get uploaded_file ''id'',
                   up_name = dict_get uploaded_file ''name''\<rparr>, s'))"

subsection \<open>\<^verbatim>\<open>delete_file\<close> (lines 127--137)\<close>

definition delete_file ::
  "('s, 'd) drive_service \<Rightarrow> string \<Rightarrow> 's \<Rightarrow> (failure + string) \<times> 's" where
  "delete_file svc file_id s =
     (case files_delete svc file_id s of
        (Inl e, s') \<Rightarrow> (Inl (http_500 e), s')
      | (Inr _, s') \<Rightarrow> (Inr (''File '' @ file_id @ '' deleted successfully''), s'))"

subsection \<open>\<^verbatim>\<open>rename_file\<close> (lines 141--155)\<close>

record rename_response =
  rn_id :: string
  rn_new_name :: string

definition rename_file ::
  "('s, 'd) drive_service \<Rightarrow> string \<Rightarrow> string \<Rightarrow> 's \<Rightarrow> (failure + rename_response) \<times> 's" where
  "rename_file svc file_id new_name s =
     (case files_update svc file_id [(''name'', new_name)] ''id, name'' s of
        (Inl e, s') \<Rightarrow> (Inl (http_500 e), s')
      | (Inr updated_file, s') \<Rightarrow>
          (case dict_item updated_file ''id'' of
             Inl e \<Rightarrow> (Inl (http_500 e), s')
           | Inr i \<Rightarrow>
               (case dict_item updated_file ''name'' of
                  Inl e \<Rightarrow> (Inl (http_500 e), s')
                | Inr n \<Rightarrow> (Inr \<lparr>rn_id = i, rn_new_name = n\<rparr>, s'))))"

declare chunk_loop.simps [code]

section \<open>Contracts of the storage service\<close>

text \<open>
  A run of the downloader, told without the loop: \<open>transfer svc d s cs r s'\<close> holds when
  successive calls of \<open>next_chunk\<close>, starting from downloader \<open>d\<close> and remote state \<open>s\<close>,
  deliver the chunks \<open>cs\<close> (one per call that returned) and then stop in state \<open>s'\<close>,
  either because the last call of \<open>cs\<close> was the first to report \<^verbatim>\<open>done\<close> (\<open>r = None\<close>),
  or because the call after \<open>cs\<close> raised \<open>e\<close> (\<open>r = Some e\<close>).
\<close>

inductive transfer ::
  "('s, 'd) drive_service \<Rightarrow> 'd \<Rightarrow> 's \<Rightarrow> bytes list \<Rightarrow> py_exception option \<Rightarrow> 's \<Rightarrow> bool" where
  transfer_done:
    "next_chunk svc d s = (Inr (c, True, d'), s') \<Longrightarrow> transfer svc d s [c] None s'"
| transfer_raise:
    "next_chunk svc d s = (Inl e, s') \<Longrightarrow> transfer svc d s [] (Some e) s'"
| transfer_more:
    "next_chunk svc d s = (Inr (c, False, d'), s') \<Longrightarrow> transfer svc d' s' cs r s''
      \<Longrightarrow> transfer svc d s (c # cs) r s''"

definition loop_result :: "bytes \<Rightarrow> bytes list \<Rightarrow> py_exception option \<Rightarrow> py_exception + bytes" where
  "loop_result fh cs r = (case r of None \<Rightarrow> Inr (fh @ concat cs) | Some e \<Rightarrow> Inl e)"

text \<open>
  What the service holds, as far as listing is concerned: \<open>items s\<close> are the files of
  the remote state \<open>s\<close>, each with its identifier, name, MIME type, modification time,
  parents and trashed flag, and \<open>resource_of\<close> is the dictionary the service returns for
  one of them under the projection \<^verbatim>\<open>files(id, name, mimeType, modifiedTime)\<close>.

  The service honours queries on folder \<open>folder_id\<close> when its answer to the text
  \<^verbatim>\<open>'<folder_id>' in parents and trashed = false\<close> holds exactly the non-trashed items
  whose parents include the folder, and its answer to that text followed by
  \<^verbatim>\<open> and name contains '<t>'\<close>, for a text \<open>t\<close> without a single quote, holds exactly
  those of them whose names contain \<open>t\<close>. Nothing is asked of the answer when \<open>t\<close>
  contains a quote: a service that reads the query ends the literal at the first quote.
\<close>

record drive_item =
  item_id :: string
  item_name :: string
  item_mime :: string
  item_mtime :: string
  item_parents :: "string list"
  item_trashed :: bool

definition resource_of :: "drive_item \<Rightarrow> py_dict" where
  "resource_of i =
     [(''id'', item_id i), (''name'', item_name i), (''mimeType'', item_mime i),
      (''modifiedTime'', item_mtime i)]"


text \<open>
  \<open>name_of s i\<close> is the display name the remote state \<open>s\<close> holds for identifier \<open>i\<close>,
  \<open>None\<close> when it holds no such file. The service honours renaming when an update of
  the name of a file it holds succeeds, answers with the identifier and the new name, and
  leaves the file under that name; it honours deletion when deleting a file it holds
  succeeds and leaves no such file, and deleting a file it does not hold raises. These
  are behaviours of the external service, which the handlers pass through: the theorems
  on renaming and deleting twice take them as hypotheses.
\<close>

definition honours_rename ::
  "('s, 'd) drive_service \<Rightarrow> ('s \<Rightarrow> string \<Rightarrow> string option) \<Rightarrow> bool" where
  "honours_rename svc name_of \<longleftrightarrow>
     (\<forall>i n fl s. name_of s i \<noteq> None \<longrightarrow>
        (\<exists>r s'. files_update svc i [(''name'', n)] fl s = (Inr r, s') \<and>
                 dict_get r ''id'' = Some i \<and> dict_get r ''name'' = Some n \<and>
                 name_of s' i = Some n))"

definition honours_delete ::
  "('s, 'd) drive_service \<Rightarrow> ('s \<Rightarrow> string \<Rightarrow> string option) \<Rightarrow> bool" where
  "honours_delete svc name_of \<longleftrightarrow>
     (\<forall>i s. (name_of s i \<noteq> None \<longrightarrow>
               (\<exists>s'. files_delete svc i s = (Inr (), s') \<and> name_of s' i = None)) \<and>
            (name_of s i = None \<longrightarrow> (\<exists>e s'. files_delete svc i s = (Inl e, s'))))"

section \<open>An in-memory storage service\<close>

text \<open>
  A small service to run the handlers against: the store is an association list from
  identifiers to files, a query is read back from its text, a download proceeds two bytes
  at a time. \<open>outage_drive\<close> is the service when nothing can be reached, and
  \<open>no_metadata_drive\<close> serves content but no metadata.
\<close>

record sim_file =
  sf_name :: string
  sf_mime :: string
  sf_mtime :: string
  sf_parents :: "string list"
  sf_trashed :: bool
  sf_content :: bytes

type_synonym sim_store = "(string \<times> sim_file) list"

fun drop_prefix :: "'a list \<Rightarrow> 'a list \<Rightarrow> 'a list option" where
  "drop_prefix [] ys = Some ys"
| "drop_prefix (x # xs) [] = None"
| "drop_prefix (x # xs) (y # ys) = (if x = y then drop_prefix xs ys else None)"

definition sim_resource :: "string \<times> sim_file \<Rightarrow> py_dict" where
  "sim_resource p =
     [(''id'', fst p), (''name'', sf_name (snd p)), (''mimeType'', sf_mime (snd p)),
      (''modifiedTime'', sf_mtime (snd p))]"

definition not_found :: "string \<Rightarrow> py_exception" where
  "not_found i = SdkError (''File not found: '' @ i)"

definition sim_list ::
  "string \<Rightarrow> string \<Rightarrow> string \<Rightarrow> string \<Rightarrow> sim_store \<Rightarrow> (py_exception + py_dict list option) \<times> sim_store" where
  "sim_list folder_id q sp fl st =
     (let inside = filter (\<lambda>p. folder_id \<in> set (sf_parents (snd p)) \<and> \<not> sf_trashed (snd p)) st
      in case drop_prefix ([CHR 0x27] @ folder_id @ [CHR 0x27] @ '' in parents and trashed = false'') q of
           None \<Rightarrow> (Inl (SdkError ''Invalid query''), st)
         | Some rest \<Rightarrow>
             if rest = [] then (Inr (Some (map sim_resource inside)), st)
             else (case drop_prefix ('' and name contains '' @ [CHR 0x27]) rest of
                     None \<Rightarrow> (Inl (SdkError ''Invalid query''), st)
                   | Some lit \<Rightarrow>
                       if lit \<noteq> [] \<and> last lit = CHR 0x27
                       then (Inr (Some (map sim_resource
                                    (filter (\<lambda>p. sublist (butlast lit) (sf_name (snd p))) inside))), st)
                       else (Inl (SdkError ''Invalid query''), st)))"

definition sim_next_chunk ::
  "string \<times> nat \<Rightarrow> sim_store \<Rightarrow> (py_exception + bytes \<times> bool \<times> string \<times> nat) \<times> sim_store" where
  "sim_next_chunk d st =
     (case map_of st (fst d) of
        None \<Rightarrow> (Inl (not_found (fst d)), st)
      | Some f \<Rightarrow>
          (Inr (take 2 (drop (snd d) (sf_content f)), length (sf_content f) \<le> snd d + 2,
                (fst d, snd d + 2)), st))"

definition sim_get :: "string \<Rightarrow> string \<Rightarrow> sim_store \<Rightarrow> (py_exception + py_dict) \<times> sim_store" where
  "sim_get i fl st =
     (case map_of st i of
        None \<Rightarrow> (Inl (not_found i), st)
      | Some f \<Rightarrow> (Inr [(''name'', sf_name f)], st))"

definition fresh_id :: "sim_store \<Rightarrow> string" where
  "fresh_id st = replicate (Suc (fold max (map (\<lambda>p. length (fst p)) st) 0)) CHR ''f''"

definition sim_create ::
  "file_metadata \<Rightarrow> media_upload \<Rightarrow> string \<Rightarrow> sim_store \<Rightarrow> (py_exception + py_dict) \<times> sim_store" where
  "sim_create md media fl st =
     (let i = fresh_id st;
          n = (case md_name md of None \<Rightarrow> ''Untitled'' | Some x \<Rightarrow> x);
          f = \<lparr>sf_name = n,
               sf_mime = (case media_mimetype media of
                            None \<Rightarrow> ''application/octet-stream'' | Some m \<Rightarrow> m),
               sf_mtime = ''2024-01-01T00:00:00Z'', sf_parents = md_parents md,
               sf_trashed = False, sf_content = media_fd media\<rparr>
      in (Inr [(''id'', i), (''name'', n)], st @ [(i, f)]))"

definition sim_delete :: "string \<Rightarrow> sim_store \<Rightarrow> (py_exception + unit) \<times> sim_store" where
  "sim_delete i st =
     (case map_of st i of
        None \<Rightarrow> (Inl (not_found i), st)
      | Some f \<Rightarrow> (Inr (), AList.delete i st))"

definition sim_update ::
  "string \<Rightarrow> py_dict \<Rightarrow> string \<Rightarrow> sim_store \<Rightarrow> (py_exception + py_dict) \<times> sim_store" where
  "sim_update i body' fl st =
     (case map_of st i of
        None \<Rightarrow> (Inl (not_found i), st)
      | Some f \<Rightarrow>
          (let f' = (case map_of body' ''name'' of None \<Rightarrow> f | Some n \<Rightarrow> f\<lparr>sf_name := n\<rparr>)
           in (Inr [(''id'', i), (''name'', sf_name f')], AList.update i f' st)))"

definition sim_drive :: "string \<Rightarrow> (sim_store, string \<times> nat) drive_service" where
  "sim_drive folder_id =
     \<lparr>files_list = sim_list folder_id, media_downloader = (\<lambda>i. (i, 0)),
      next_chunk = sim_next_chunk, files_get = sim_get, files_create = sim_create,
      files_delete = sim_delete, files_update = sim_update\<rparr>"

definition sim_name_of :: "sim_store \<Rightarrow> string \<Rightarrow> string option" where
  "sim_name_of st i = map_option sf_name (map_of st i)"

definition unavailable :: py_exception where
  "unavailable = SdkError ''503 Service Unavailable''"

definition outage_drive :: "(sim_store, string \<times> nat) drive_service" where
  "outage_drive =
     \<lparr>files_list = (\<lambda>q sp fl st. (Inl unavailable, st)), media_downloader = (\<lambda>i. (i, 0)),
      next_chunk = (\<lambda>d st. (Inl unavailable, st)), files_get = (\<lambda>i fl st. (Inl unavailable, st)),
      files_create = (\<lambda>md media fl st. (Inl unavailable, st)),
      files_delete = (\<lambda>i st. (Inl unavailable, st)),
      files_update = (\<lambda>i b fl st. (Inl unavailable, st))\<rparr>"

definition no_metadata_drive :: "(sim_store, string \<times> nat) drive_service" where
  "no_metadata_drive = (sim_drive ''F'')\<lparr>files_get := (\<lambda>i fl st. (Inl unavailable, st))\<rparr>"

text \<open>The folder of the listing scenario (\<^verbatim>\<open>a.pdf\<close> and \<^verbatim>\<open>b.txt\<close> in folder \<^verbatim>\<open>F\<close>).\<close>

definition demo_store :: sim_store where
  "demo_store =
     [(''id-a'', \<lparr>sf_name = ''a.pdf'', sf_mime = ''application/pdf'',
                 sf_mtime = ''2024-01-01T00:00:00Z'', sf_parents = [''F''], sf_trashed = False,
                 sf_content = [1, 2, 3, 4, 5]\<rparr>),
      (''id-b'', \<lparr>sf_name = ''b.txt'', sf_mime = ''text/plain'',
                 sf_mtime = ''2024-01-02T00:00:00Z'', sf_parents = [''F''], sf_trashed = False,
                 sf_content = [104, 105]\<rparr>)]"

definition demo_env :: "string \<Rightarrow> string option" where
  "demo_env = Map.empty(''GOOGLE_DRIVE_FOLDER_ID'' \<mapsto> ''F'')"

text \<open>The payload of the upload scenario (\<^verbatim>\<open>note.txt\<close>, \<^verbatim>\<open>text/plain\<close>, content \<^verbatim>\<open>hi\<close>).\<close>

definition demo_payload :: upload_payload where
  "demo_payload = \<lparr>filename = Some ''note.txt'', content_type = Some ''text/plain'',
                   content = [104, 105]\<rparr>"

subsection \<open>A service that reads the query\<close>

text \<open>
  \<open>parsing_drive\<close> answers a list call by reading the query text term by term: a term
  is \<^verbatim>\<open>'<id>' in parents\<close>, \<^verbatim>\<open>trashed = false\<close>, \<^verbatim>\<open>trashed = true\<close> or
  \<^verbatim>\<open>name contains '<text>'\<close>, a literal ends at the first single quote, and terms are
  joined by \<^verbatim>\<open> and \<close> and \<^verbatim>\<open> or \<close>, evaluated from left to right. A text it cannot
  read is an invalid query. \<open>mixed_store\<close> adds to the folder of the listing scenario a
  trashed file of folder \<^verbatim>\<open>F\<close> and a file of another folder; \<open>quoted_extension\<close> is an
  extension that contains a single quote.
\<close>

datatype query_term = InParents string | TrashedIs bool | NameContains string

fun read_literal :: "string \<Rightarrow> (string \<times> string) option" where
  "read_literal [] = None"
| "read_literal (c # cs) =
     (if c = CHR 0x27 then Some ([], cs)
      else (case read_literal cs of None \<Rightarrow> None | Some (l, r) \<Rightarrow> Some (c # l, r)))"

definition parse_term :: "string \<Rightarrow> (query_term \<times> string) option" where
  "parse_term q =
     (case drop_prefix ''trashed = false'' q of
        Some r \<Rightarrow> Some (TrashedIs False, r)
      | None \<Rightarrow>
     (case drop_prefix ''trashed = true'' q of
        Some r \<Rightarrow> Some (TrashedIs True, r)
      | None \<Rightarrow>
     (case drop_prefix (''name contains '' @ [CHR 0x27]) q of
        Some r \<Rightarrow>
          (case read_literal r of None \<Rightarrow> None | Some (l, r') \<Rightarrow> Some (NameContains l, r'))
      | None \<Rightarrow>
     (case drop_prefix [CHR 0x27] q of
        Some r \<Rightarrow>
          (case read_literal r of
             None \<Rightarrow> None
           | Some (l, r') \<Rightarrow>
               (case drop_prefix '' in parents'' r' of
                  None \<Rightarrow> None
                | Some r'' \<Rightarrow> Some (InParents l, r'')))
      | None \<Rightarrow> None))))"

fun parse_rest :: "nat \<Rightarrow> string \<Rightarrow> (bool \<times> query_term) list option" where
  "parse_rest 0 q = (if q = [] then Some [] else None)"
| "parse_rest (Suc n) q =
     (if q = [] then Some []
      else (case drop_prefix '' and '' q of
              Some r \<Rightarrow>
                (case parse_term r of
                   None \<Rightarrow> None
                 | Some (t, r') \<Rightarrow> map_option ((#) (False, t)) (parse_rest n r'))
            | None \<Rightarrow>
                (case drop_prefix '' or '' q of
                   Some r \<Rightarrow>
                     (case parse_term r of
                        None \<Rightarrow> None
                      | Some (t, r') \<Rightarrow> map_option ((#) (True, t)) (parse_rest n r'))
                 | None \<Rightarrow> None)))"

definition parse_query :: "string \<Rightarrow> (query_term \<times> (bool \<times> query_term) list) option" where
  "parse_query q =
     (case parse_term q of
        None \<Rightarrow> None
      | Some (t, r) \<Rightarrow> map_option (Pair t) (parse_rest (length r) r))"

fun eval_term :: "drive_item \<Rightarrow> query_term \<Rightarrow> bool" where
  "eval_term i (InParents p) = (p \<in> set (item_parents i))"
| "eval_term i (TrashedIs b) = (item_trashed i = b)"
| "eval_term i (NameContains l) = sublist l (item_name i)"

fun eval_rest :: "drive_item \<Rightarrow> bool \<Rightarrow> (bool \<times> query_term) list \<Rightarrow> bool" where
  "eval_rest i acc [] = acc"
| "eval_rest i acc (bt # ts) =
     eval_rest i (if fst bt then acc \<or> eval_term i (snd bt) else acc \<and> eval_term i (snd bt)) ts"

definition sim_items :: "sim_store \<Rightarrow> drive_item list" where
  "sim_items st =
     map (\<lambda>p. \<lparr>item_id = fst p, item_name = sf_name (snd p), item_mime = sf_mime (snd p),
               item_mtime = sf_mtime (snd p), item_parents = sf_parents (snd p),
               item_trashed = sf_trashed (snd p)\<rparr>) st"

definition parsed_list ::
  "string \<Rightarrow> string \<Rightarrow> string \<Rightarrow> sim_store \<Rightarrow> (py_exception + py_dict list option) \<times> sim_store" where
  "parsed_list q sp fl st =
     (case parse_query q of
        None \<Rightarrow> (Inl (SdkError ''Invalid query''), st)
      | Some (t, ts) \<Rightarrow>
          (Inr (Some (map resource_of
                   (filter (\<lambda>i. eval_rest i (eval_term i t) ts) (sim_items st)))), st))"

definition parsing_drive :: "(sim_store, string \<times> nat) drive_service" where
  "parsing_drive = (sim_drive ''F'')\<lparr>files_list := parsed_list\<rparr>"


definition mixed_store :: sim_store where
  "mixed_store =
     demo_store @
     [(''id-c'', \<lparr>sf_name = ''c.pdf'', sf_mime = ''application/pdf'',
                 sf_mtime = ''2024-01-03T00:00:00Z'', sf_parents = [''F''], sf_trashed = True,
                 sf_content = [7]\<rparr>),
      (''id-d'', \<lparr>sf_name = ''d.pdf'', sf_mime = ''application/pdf'',
                 sf_mtime = ''2024-01-04T00:00:00Z'', sf_parents = [''G''], sf_trashed = False,
                 sf_content = [8]\<rparr>)]"

section \<open>The chunk loop and the run of the downloader\<close>

text \<open>
  The loop of lines 74--76 returns exactly what the run of the downloader delivers: if the
  run stops, the loop stops with its chunks appended to the buffer (or with its
  exception), and if the loop stops, there is such a run.
\<close>

lemma chunk_loop_complete:
  "transfer svc d s cs r s' \<Longrightarrow> chunk_loop svc d s fh = Some (loop_result fh cs r, s')"
proof (induction arbitrary: fh rule: transfer.induct)
  case (transfer_done svc d s c d' s')
  then show ?case by (subst chunk_loop.simps) (simp add: loop_result_def)
next
  case (transfer_raise svc d s e s')
  then show ?case by (subst chunk_loop.simps) (simp add: loop_result_def)
next
  case (transfer_more svc d s c d' s' cs r s'')
  have "chunk_loop svc d s fh = chunk_loop svc d' s' (fh @ c)"
    using transfer_more.hyps(1) by (subst chunk_loop.simps) simp
  also have "\<dots> = Some (loop_result (fh @ c) cs r, s'')"
    by (rule transfer_more.IH)
  finally show ?case by (simp add: loop_result_def split: option.splits)
qed

lemma chunk_loop_sound_aux:
  assumes "chunk_loop svc0 d0 s0 fh0 = Some y0"
  shows "\<exists>cs r. transfer svc0 d0 s0 cs r (snd y0) \<and> fst y0 = loop_result fh0 cs r"
proof (rule chunk_loop.raw_induct
    [where P = "\<lambda>svc d s fh y. \<exists>cs r. transfer svc d s cs r (snd y) \<and> fst y = loop_result fh cs r",
      OF _ assms], goal_cases)
  case (1 loop svc d s fh y)
  show ?case
  proof (cases "next_chunk svc d s")
    case (Pair a s1)
    show ?thesis
    proof (cases a)
      case (Inl e)
      with Pair 1(2) have "fst y = loop_result fh [] (Some e)" "snd y = s1"
        by (auto simp: loop_result_def)
      moreover have "transfer svc d s [] (Some e) s1"
        using Pair Inl by (auto intro: transfer_raise)
      ultimately show ?thesis by auto
    next
      case (Inr t)
      obtain c dn d' where t: "t = (c, dn, d')" by (cases t)
      show ?thesis
      proof (cases dn)
        case True
        with Pair Inr t 1(2) have "fst y = loop_result fh [c] None" "snd y = s1"
          by (auto simp: loop_result_def)
        moreover have "transfer svc d s [c] None s1"
          using Pair Inr t True by (auto intro: transfer_done)
        ultimately show ?thesis by auto
      next
        case False
        with Pair Inr t 1(2) have "loop svc d' s1 (fh @ c) = Some y" by auto
        from 1(1)[OF this] obtain cs r where
          tr: "transfer svc d' s1 cs r (snd y)" and res: "fst y = loop_result (fh @ c) cs r"
          by blast
        have "transfer svc d s (c # cs) r (snd y)"
          using Pair Inr t False tr by (auto intro: transfer_more)
        moreover have "fst y = loop_result fh (c # cs) r"
          using res by (simp add: loop_result_def split: option.splits)
        ultimately show ?thesis by blast
      qed
    qed
  qed
qed

lemma chunk_loop_sound:
  "chunk_loop svc d s fh = Some (res, s') \<Longrightarrow>
     \<exists>cs r. transfer svc d s cs r s' \<and> res = loop_result fh cs r"
  using chunk_loop_sound_aux [of svc d s fh "(res, s')"] by simp

section \<open>Facts about the in-memory service\<close>

lemma drop_prefix_append [simp]: "drop_prefix (xs @ ys) (xs @ zs) = drop_prefix ys zs"
  by (induction xs) auto

lemma demo_listing_pdf:
  "list_files ''F'' (sim_drive ''F'') (Some ''pdf'') demo_store =
     (Inr \<lparr>resp_count = 1,
           resp_files = [[(''id'', ''id-a''), (''name'', ''a.pdf''),
                          (''mimeType'', ''application/pdf''),
                          (''modifiedTime'', ''2024-01-01T00:00:00Z'')]]\<rparr>, demo_store)"
  by (simp add: list_files_def list_query_def py_truthy_def sim_drive_def sim_list_def
      demo_store_def sim_resource_def sublist_code)

lemma demo_transfer:
  "transfer (sim_drive ''F'') (''id-a'', 0) demo_store [[1, 2], [3, 4], [5]] None demo_store"
proof -
  have 3: "transfer (sim_drive ''F'') (''id-a'', 4) demo_store [[5]] None demo_store"
    by (rule transfer_done [where d' = "(''id-a'', 6)"])
      (simp add: sim_drive_def sim_next_chunk_def demo_store_def)
  have 2: "transfer (sim_drive ''F'') (''id-a'', 2) demo_store [[3, 4], [5]] None demo_store"
    by (rule transfer_more [where d' = "(''id-a'', 4)" and s' = demo_store, OF _ 3])
      (simp add: sim_drive_def sim_next_chunk_def demo_store_def)
  show ?thesis
    by (rule transfer_more [where d' = "(''id-a'', 2)" and s' = demo_store, OF _ 2])
      (simp add: sim_drive_def sim_next_chunk_def demo_store_def)
qed

lemma demo_get_name:
  "files_get (sim_drive ''F'') ''id-a'' ''name'' demo_store = (Inr [(''name'', ''a.pdf'')], demo_store)"
  by (simp add: sim_drive_def sim_get_def demo_store_def)

lemma no_metadata_transfer:
  "transfer no_metadata_drive (media_downloader no_metadata_drive ''id-a'') demo_store
     [[1, 2], [3, 4], [5]] None demo_store"
proof -
  have 3: "transfer no_metadata_drive (''id-a'', 4) demo_store [[5]] None demo_store"
    by (rule transfer_done [where d' = "(''id-a'', 6)"])
      (simp add: no_metadata_drive_def sim_drive_def sim_next_chunk_def demo_store_def)
  have 2: "transfer no_metadata_drive (''id-a'', 2) demo_store [[3, 4], [5]] None demo_store"
    by (rule transfer_more [where d' = "(''id-a'', 4)" and s' = demo_store, OF _ 3])
      (simp add: no_metadata_drive_def sim_drive_def sim_next_chunk_def demo_store_def)
  have 1: "transfer no_metadata_drive (''id-a'', 0) demo_store [[1, 2], [3, 4], [5]] None demo_store"
    by (rule transfer_more [where d' = "(''id-a'', 2)" and s' = demo_store, OF _ 2])
      (simp add: no_metadata_drive_def sim_drive_def sim_next_chunk_def demo_store_def)
  then show ?thesis by (simp add: no_metadata_drive_def sim_drive_def)
qed

lemma outage_transfer:
  "transfer outage_drive (media_downloader outage_drive ''id-a'') demo_store [] (Some unavailable)
     demo_store"
  by (rule transfer_raise) (simp add: outage_drive_def)

lemma sim_honours_rename: "honours_rename (sim_drive folder_id) sim_name_of"
  unfolding honours_rename_def
proof (intro allI impI)
  fix i n fl and s :: sim_store
  assume "sim_name_of s i \<noteq> None"
  then obtain f where f: "map_of s i = Some f"
    by (auto simp: sim_name_of_def)
  then show "\<exists>r s'. files_update (sim_drive folder_id) i [(''name'', n)] fl s = (Inr r, s') \<and>
      dict_get r ''id'' = Some i \<and> dict_get r ''name'' = Some n \<and> sim_name_of s' i = Some n"
    by (simp add: sim_drive_def sim_update_def dict_get_def sim_name_of_def update_conv')
qed

lemma sim_honours_delete: "honours_delete (sim_drive folder_id) sim_name_of"
  unfolding honours_delete_def
proof (intro allI conjI impI)
  fix i and s :: sim_store
  assume "sim_name_of s i \<noteq> None"
  then obtain f where f: "map_of s i = Some f"
    by (auto simp: sim_name_of_def)
  then show "\<exists>s'. files_delete (sim_drive folder_id) i s = (Inr (), s') \<and> sim_name_of s' i = None"
    by (simp add: sim_drive_def sim_delete_def sim_name_of_def delete_conv')
next
  fix i and s :: sim_store
  assume "sim_name_of s i = None"
  then show "\<exists>e s'. files_delete (sim_drive folder_id) i s = (Inl e, s')"
    by (simp add: sim_drive_def sim_delete_def sim_name_of_def)
qed










lemma mixed_listing_pdf:
  "list_files ''F'' parsing_drive (Some ''pdf'') mixed_store =
     (Inr \<lparr>resp_count = 1,
           resp_files =
             [[(''id'', ''id-a''), (''name'', ''a.pdf''), (''mimeType'', ''application/pdf''),
               (''modifiedTime'', ''2024-01-01T00:00:00Z'')]]\<rparr>, mixed_store)"
  by (simp add: list_files_def list_query_def py_truthy_def parsing_drive_def parsed_list_def
      parse_query_def parse_term_def mixed_store_def demo_store_def sim_items_def
      resource_of_def sublist_code)






section \<open>Start-up\<close>

text \<open>
  With both settings present and non-empty and a client that builds, loading the module
  completes and the six routes are registered.
\<close>

lemma startup_registers_routes:
  "env ''GOOGLE_SERVICE_ACCOUNT_FILE'' = Some f \<Longrightarrow> f \<noteq> [] \<Longrightarrow>
   env ''GOOGLE_DRIVE_FOLDER_ID'' = Some d \<Longrightarrow> d \<noteq> [] \<Longrightarrow>
   make_client f SCOPES = Inr h \<Longrightarrow>
     startup env make_client =
       (Inr \<lparr>FOLDER_ID = d, drive_handle = h, routes = app_routes\<rparr>, app_routes)"
  by (simp add: startup_def py_truthy_def)

text \<open>
  Claim C3. If either required environment setting (the credential-file locator or the
  target-folder identifier) is absent when the module is loaded, loading ends with the
  \<^verbatim>\<open>RuntimeError\<close> of line 23 and with no route registered: no application exists that
  could answer a request, so the failure is never a per-request one.
\<close>

theorem missing_setting_aborts_startup:
  "env ''GOOGLE_SERVICE_ACCOUNT_FILE'' = None \<or> env ''GOOGLE_DRIVE_FOLDER_ID'' = None \<Longrightarrow>
     startup env make_client =
       (Inl (RuntimeError ''Missing GOOGLE_SERVICE_ACCOUNT_FILE or GOOGLE_DRIVE_FOLDER_ID in .env''),
        [])"
  by (auto simp: startup_def py_truthy_def)

theorem missing_setting_aborts_startup_witness:
  "(demo_env ''GOOGLE_SERVICE_ACCOUNT_FILE'' = None \<or> demo_env ''GOOGLE_DRIVE_FOLDER_ID'' = None) \<and>
   startup demo_env (\<lambda>f sc. Inr ()) =
     (Inl (RuntimeError ''Missing GOOGLE_SERVICE_ACCOUNT_FILE or GOOGLE_DRIVE_FOLDER_ID in .env''),
      [])"
proof -
  have h: "demo_env ''GOOGLE_SERVICE_ACCOUNT_FILE'' = None \<or> demo_env ''GOOGLE_DRIVE_FOLDER_ID'' = None"
    by (simp add: demo_env_def)
  from h missing_setting_aborts_startup [OF h, of "\<lambda>f sc. Inr ()"] show ?thesis by simp
qed

section \<open>Listing\<close>

text \<open>
  The list route has no handler of its own: what the call on the service raises leaves
  the route function uncaught.
\<close>

lemma list_failure_is_uncaught:
  "files_list svc (list_query folder_id extension) ''drive''
       ''files(id, name, mimeType, modifiedTime)'' s = (Inl e, s') \<Longrightarrow>
     list_files folder_id svc extension s = (Inl (Uncaught e), s')"
  by (simp add: list_files_def)




text \<open>
  Claim C6. In every response of the list operation, the value of the count field is the
  length of the files list of the same response.
\<close>

theorem count_is_length_of_files:
  "list_files folder_id svc extension s = (Inr resp, s') \<Longrightarrow>
     resp_count resp = length (resp_files resp)"
  by (auto simp: list_files_def Let_def split: prod.splits sum.splits)

theorem count_is_length_of_files_witness:
  "list_files ''F'' (sim_drive ''F'') (Some ''pdf'') demo_store =
     (Inr \<lparr>resp_count = 1,
           resp_files = [[(''id'', ''id-a''), (''name'', ''a.pdf''),
                          (''mimeType'', ''application/pdf''),
                          (''modifiedTime'', ''2024-01-01T00:00:00Z'')]]\<rparr>, demo_store) \<and>
   resp_count \<lparr>resp_count = 1,
           resp_files = [[(''id'', ''id-a''), (''name'', ''a.pdf''),
                          (''mimeType'', ''application/pdf''),
                          (''modifiedTime'', ''2024-01-01T00:00:00Z'')]]\<rparr> =
     length [[(''id'', ''id-a''), (''name'', ''a.pdf''), (''mimeType'', ''application/pdf''),
              (''modifiedTime'', ''2024-01-01T00:00:00Z'')]]"
  using count_is_length_of_files [OF demo_listing_pdf] demo_listing_pdf by simp



section \<open>Download\<close>

text \<open>
  Claim C9. The chunk loop of the download operation ends for every transfer in which the
  downloader eventually reports completion: when the run of the downloader delivers the
  chunks \<open>cs\<close>, the last of them being the first reported \<^verbatim>\<open>done\<close>, the loop
  returns after these calls with each chunk appended to the buffer in order; and the loop
  returns a buffer only so, that is, it leaves exactly when the transfer reports done.
\<close>

theorem chunk_loop_terminates:
  "(transfer svc d s cs None s' \<longrightarrow> chunk_loop svc d s fh = Some (Inr (fh @ concat cs), s')) \<and>
   (chunk_loop svc d s fh = Some (Inr b, s') \<longrightarrow>
      (\<exists>cs'. transfer svc d s cs' None s' \<and> b = fh @ concat cs'))"
proof (intro conjI impI)
  assume "transfer svc d s cs None s'"
  from chunk_loop_complete [OF this, of fh]
  show "chunk_loop svc d s fh = Some (Inr (fh @ concat cs), s')"
    by (simp add: loop_result_def)
next
  assume "chunk_loop svc d s fh = Some (Inr b, s')"
  from chunk_loop_sound [OF this] obtain cs' r where
    tr: "transfer svc d s cs' r s'" and b: "Inr b = loop_result fh cs' r" by blast
  from b have "r = None" "b = fh @ concat cs'"
    by (auto simp: loop_result_def split: option.splits)
  with tr show "\<exists>cs'. transfer svc d s cs' None s' \<and> b = fh @ concat cs'" by blast
qed

theorem chunk_loop_terminates_witness:
  "transfer (sim_drive ''F'') (''id-a'', 0) demo_store [[1, 2], [3, 4], [5]] None demo_store \<and>
   chunk_loop (sim_drive ''F'') (''id-a'', 0) demo_store [] = Some (Inr [1, 2, 3, 4, 5], demo_store) \<and>
   (\<exists>cs'. transfer (sim_drive ''F'') (''id-a'', 0) demo_store cs' None demo_store \<and>
          [1, 2, 3, 4, 5] = [] @ concat cs')"
proof -
  note t = chunk_loop_terminates
    [where svc = "sim_drive ''F''" and d = "(''id-a'', 0)" and s = demo_store
      and cs = "[[1, 2], [3, 4], [5]]" and s' = demo_store and fh = "[]" and b = "[1, 2, 3, 4, 5]"]
  from t demo_transfer
  have run: "chunk_loop (sim_drive ''F'') (''id-a'', 0) demo_store [] = Some (Inr [1, 2, 3, 4, 5], demo_store)"
    by simp
  with t have "\<exists>cs'. transfer (sim_drive ''F'') (''id-a'', 0) demo_store cs' None demo_store \<and>
          [1, 2, 3, 4, 5] = [] @ concat cs'"
    by blast
  with run demo_transfer show ?thesis by blast
qed

text \<open>
  Claim C4. A download request succeeds exactly when the transfer for the given identifier
  completes and the metadata call that follows, for the same identifier and the field
  \<^verbatim>\<open>name\<close>, returns. The body of the response is then the concatenation of the chunks
  fetched, the media type is \<^verbatim>\<open>application/octet-stream\<close>, and the only header is
  \<^verbatim>\<open>Content-Disposition: attachment; filename=<name>\<close> with the name of that metadata
  (the text \<^verbatim>\<open>None\<close> if the metadata has no name).
\<close>

theorem download_response:
  "download_file svc file_id s = Some (Inr resp, s') \<longleftrightarrow>
     (\<exists>cs s1 file.
        transfer svc (media_downloader svc file_id) s cs None s1 \<and>
        files_get svc file_id ''name'' s1 = (Inr file, s') \<and>
        resp = \<lparr>body = concat cs, media_type = ''application/octet-stream'',
                headers = [(''Content-Disposition'',
                            ''attachment; filename='' @
                              (case dict_get file ''name'' of None \<Rightarrow> ''None'' | Some n \<Rightarrow> n))]\<rparr>)"
  (is "?L \<longleftrightarrow> ?R")
proof
  assume L: ?L
  then obtain fh s1 where loop:
    "chunk_loop svc (media_downloader svc file_id) s [] = Some (Inr fh, s1)"
    by (auto simp: download_file_def split: option.splits sum.splits prod.splits)
  from chunk_loop_sound [OF loop] obtain cs r where
    tr: "transfer svc (media_downloader svc file_id) s cs r s1" and
    fh: "Inr fh = loop_result [] cs r" by blast
  from fh have r: "r = None" and fh': "fh = concat cs"
    by (auto simp: loop_result_def split: option.splits)
  from L loop obtain meta where
    "files_get svc file_id ''name'' s1 = (Inr meta, s')"
    "resp = \<lparr>body = fh, media_type = ''application/octet-stream'',
            headers = [(''Content-Disposition'',
                        ''attachment; filename='' @ py_format (dict_get meta ''name''))]\<rparr>"
    by (auto simp: download_file_def Let_def split: sum.splits prod.splits)
  with tr r fh' show ?R by (auto simp: py_format_def)
next
  assume ?R
  then obtain cs s1 meta where
    tr: "transfer svc (media_downloader svc file_id) s cs None s1" and
    g: "files_get svc file_id ''name'' s1 = (Inr meta, s')" and
    resp: "resp = \<lparr>body = concat cs, media_type = ''application/octet-stream'',
                headers = [(''Content-Disposition'',
                            ''attachment; filename='' @
                              (case dict_get meta ''name'' of None \<Rightarrow> ''None'' | Some n \<Rightarrow> n))]\<rparr>"
    by blast
  from chunk_loop_complete [OF tr, of "[]"]
  have "chunk_loop svc (media_downloader svc file_id) s [] = Some (Inr (concat cs), s1)"
    by (simp add: loop_result_def)
  with g resp show ?L by (simp add: download_file_def py_format_def)
qed

theorem download_response_witness:
  "download_file (sim_drive ''F'') ''id-a'' demo_store =
     Some (Inr \<lparr>body = [1, 2, 3, 4, 5], media_type = ''application/octet-stream'',
                headers = [(''Content-Disposition'', ''attachment; filename=a.pdf'')]\<rparr>,
           demo_store)"
proof -
  have "\<exists>cs s1 file.
        transfer (sim_drive ''F'') (media_downloader (sim_drive ''F'') ''id-a'') demo_store cs None s1 \<and>
        files_get (sim_drive ''F'') ''id-a'' ''name'' s1 = (Inr file, demo_store) \<and>
        \<lparr>body = [1, 2, 3, 4, 5], media_type = ''application/octet-stream'',
         headers = [(''Content-Disposition'', ''attachment; filename=a.pdf'')]\<rparr> =
        \<lparr>body = concat cs, media_type = ''application/octet-stream'',
                headers = [(''Content-Disposition'',
                            ''attachment; filename='' @
                              (case dict_get file ''name'' of None \<Rightarrow> ''None'' | Some n \<Rightarrow> n))]\<rparr>"
    apply (rule exI [of _ "[[1, 2], [3, 4], [5]]"])
    apply (rule exI [of _ demo_store])
    apply (rule exI [of _ "[(''name'', ''a.pdf'')]"])
    using demo_transfer demo_get_name
    apply (simp add: dict_get_def)
    apply (simp add: sim_drive_def)
    done
  then show ?thesis by (simp only: download_response)
qed

section \<open>Upload\<close>

text \<open>
  Claim C5. For every upload request with a payload (filename, declared content type,
  bytes), the create call sent to the service carries the metadata whose name is the
  declared filename and whose parents are the configured folder identifier alone (with
  the bytes and the declared content type as media, and the fields \<^verbatim>\<open>id, name\<close>): the
  operation succeeds exactly when that call does, it then returns the identifier and the
  name the service answered, and the outcome depends on the service through that call
  only.
\<close>

theorem upload_sends_folder_metadata:
  "(upload_file folder_id svc payload s = (Inr resp, s') \<longleftrightarrow>
      (\<exists>r. files_create svc \<lparr>md_name = filename payload, md_parents = [folder_id]\<rparr>
               \<lparr>media_fd = content payload, media_mimetype = content_type payload\<rparr>
               ''id, name'' s = (Inr r, s') \<and>
            resp = \<lparr>up_id = dict_get r ''id'', up_name = dict_get r ''name''\<rparr>)) \<and>
   (files_create svc' \<lparr>md_name = filename payload, md_parents = [folder_id]\<rparr>
        \<lparr>media_fd = content payload, media_mimetype = content_type payload\<rparr> ''id, name'' s =
    files_create svc \<lparr>md_name = filename payload, md_parents = [folder_id]\<rparr>
        \<lparr>media_fd = content payload, media_mimetype = content_type payload\<rparr> ''id, name'' s
    \<longrightarrow> upload_file folder_id svc' payload s = upload_file folder_id svc payload s)"
  by (auto simp: upload_file_def Let_def split: sum.splits prod.splits)

theorem upload_sends_folder_metadata_witness:
  "upload_file ''F'' (sim_drive ''F'') demo_payload demo_store =
     (Inr \<lparr>up_id = Some ''fffff'', up_name = Some ''note.txt''\<rparr>,
      demo_store @
        [(''fffff'', \<lparr>sf_name = ''note.txt'', sf_mime = ''text/plain'',
                     sf_mtime = ''2024-01-01T00:00:00Z'', sf_parents = [''F''],
                     sf_trashed = False, sf_content = [104, 105]\<rparr>)]) \<and>
   upload_file ''F'' ((sim_drive ''F'')\<lparr>files_delete := \<lambda>i st. (Inl unavailable, st)\<rparr>)
       demo_payload demo_store =
     upload_file ''F'' (sim_drive ''F'') demo_payload demo_store"
proof -
  note u = upload_sends_folder_metadata
    [where svc = "sim_drive ''F''" and folder_id = "''F''" and payload = demo_payload
      and s = demo_store
      and svc' = "(sim_drive ''F'')\<lparr>files_delete := \<lambda>i st. (Inl unavailable, st)\<rparr>"]
  have cr: "files_create (sim_drive ''F'')
        \<lparr>md_name = filename demo_payload, md_parents = [''F'']\<rparr>
        \<lparr>media_fd = content demo_payload, media_mimetype = content_type demo_payload\<rparr>
        ''id, name'' demo_store =
      (Inr [(''id'', ''fffff''), (''name'', ''note.txt'')],
       demo_store @
        [(''fffff'', \<lparr>sf_name = ''note.txt'', sf_mime = ''text/plain'',
                     sf_mtime = ''2024-01-01T00:00:00Z'', sf_parents = [''F''],
                     sf_trashed = False, sf_content = [104, 105]\<rparr>)])"
    by (simp add: sim_drive_def sim_create_def fresh_id_def demo_store_def demo_payload_def
        numeral_eq_Suc Let_def)
  have same: "files_create ((sim_drive ''F'')\<lparr>files_delete := \<lambda>i st. (Inl unavailable, st)\<rparr>)
        \<lparr>md_name = filename demo_payload, md_parents = [''F'']\<rparr>
        \<lparr>media_fd = content demo_payload, media_mimetype = content_type demo_payload\<rparr>
        ''id, name'' demo_store =
      files_create (sim_drive ''F'')
        \<lparr>md_name = filename demo_payload, md_parents = [''F'']\<rparr>
        \<lparr>media_fd = content demo_payload, media_mimetype = content_type demo_payload\<rparr>
        ''id, name'' demo_store"
    by simp
  from u cr have "upload_file ''F'' (sim_drive ''F'') demo_payload demo_store =
     (Inr \<lparr>up_id = Some ''fffff'', up_name = Some ''note.txt''\<rparr>,
      demo_store @
        [(''fffff'', \<lparr>sf_name = ''note.txt'', sf_mime = ''text/plain'',
                     sf_mtime = ''2024-01-01T00:00:00Z'', sf_parents = [''F''],
                     sf_trashed = False, sf_content = [104, 105]\<rparr>)])"
    by (simp add: dict_get_def)
  moreover from u same
  have "upload_file ''F'' ((sim_drive ''F'')\<lparr>files_delete := \<lambda>i st. (Inl unavailable, st)\<rparr>)
       demo_payload demo_store =
     upload_file ''F'' (sim_drive ''F'') demo_payload demo_store"
    by blast
  ultimately show ?thesis by blast
qed

section \<open>Failures of the service\<close>

text \<open>
  Claim C1. For download, upload, delete and rename: if a call on the service raises (a
  chunk call or the metadata call of a download; the create, delete or update call), the
  operation ends with an HTTP error of status 500 whose detail is the string form of
  that exception; and whenever one of these operations ends with an error at all, it is
  an HTTP error of status 500 with the string form of an exception as detail.
\<close>

theorem remote_failure_is_http_500:
  "(transfer svc (media_downloader svc file_id) s cs (Some e) s' \<longrightarrow>
      download_file svc file_id s = Some (Inl (HTTPException 500 (py_str e)), s')) \<and>
   (transfer svc (media_downloader svc file_id) s cs None sm \<and>
    files_get svc file_id ''name'' sm = (Inl e, s') \<longrightarrow>
      download_file svc file_id s = Some (Inl (HTTPException 500 (py_str e)), s')) \<and>
   (files_create svc \<lparr>md_name = filename payload, md_parents = [folder_id]\<rparr>
        \<lparr>media_fd = content payload, media_mimetype = content_type payload\<rparr> ''id, name'' s =
      (Inl e, s') \<longrightarrow>
      upload_file folder_id svc payload s = (Inl (HTTPException 500 (py_str e)), s')) \<and>
   (files_delete svc file_id s = (Inl e, s') \<longrightarrow>
      delete_file svc file_id s = (Inl (HTTPException 500 (py_str e)), s')) \<and>
   (files_update svc file_id [(''name'', new_name)] ''id, name'' s = (Inl e, s') \<longrightarrow>
      rename_file svc file_id new_name s = (Inl (HTTPException 500 (py_str e)), s')) \<and>
   (download_file svc file_id s = Some (Inl x, t) \<or>
    upload_file folder_id svc payload s = (Inl x, t) \<or>
    delete_file svc file_id s = (Inl x, t) \<or>
    rename_file svc file_id new_name s = (Inl x, t) \<longrightarrow>
      (\<exists>e'. x = HTTPException 500 (py_str e')))"
proof (intro conjI impI)
  assume "transfer svc (media_downloader svc file_id) s cs (Some e) s'"
  from chunk_loop_complete [OF this, of "[]"]
  show "download_file svc file_id s = Some (Inl (HTTPException 500 (py_str e)), s')"
    by (simp add: download_file_def loop_result_def http_500_def)
next
  assume "transfer svc (media_downloader svc file_id) s cs None sm \<and>
    files_get svc file_id ''name'' sm = (Inl e, s')"
  then have tr: "transfer svc (media_downloader svc file_id) s cs None sm"
    and g: "files_get svc file_id ''name'' sm = (Inl e, s')" by simp_all
  from chunk_loop_complete [OF tr, of "[]"] g
  show "download_file svc file_id s = Some (Inl (HTTPException 500 (py_str e)), s')"
    by (simp add: download_file_def loop_result_def http_500_def)
next
  assume "files_create svc \<lparr>md_name = filename payload, md_parents = [folder_id]\<rparr>
        \<lparr>media_fd = content payload, media_mimetype = content_type payload\<rparr> ''id, name'' s =
      (Inl e, s')"
  then show "upload_file folder_id svc payload s = (Inl (HTTPException 500 (py_str e)), s')"
    by (simp add: upload_file_def http_500_def)
next
  assume "files_delete svc file_id s = (Inl e, s')"
  then show "delete_file svc file_id s = (Inl (HTTPException 500 (py_str e)), s')"
    by (simp add: delete_file_def http_500_def)
next
  assume "files_update svc file_id [(''name'', new_name)] ''id, name'' s = (Inl e, s')"
  then show "rename_file svc file_id new_name s = (Inl (HTTPException 500 (py_str e)), s')"
    by (simp add: rename_file_def http_500_def)
next
  assume "download_file svc file_id s = Some (Inl x, t) \<or>
    upload_file folder_id svc payload s = (Inl x, t) \<or>
    delete_file svc file_id s = (Inl x, t) \<or>
    rename_file svc file_id new_name s = (Inl x, t)"
  then consider
    (dl) "download_file svc file_id s = Some (Inl x, t)" |
    (up) "upload_file folder_id svc payload s = (Inl x, t)" |
    (de) "delete_file svc file_id s = (Inl x, t)" |
    (rn) "rename_file svc file_id new_name s = (Inl x, t)" by blast
  then show "\<exists>e'. x = HTTPException 500 (py_str e')"
  proof cases
    case dl
    then show ?thesis
      by (auto simp: download_file_def http_500_def Let_def
          split: option.splits sum.splits prod.splits)
  next
    case up
    then show ?thesis
      by (auto simp: upload_file_def http_500_def Let_def split: sum.splits prod.splits)
  next
    case de
    then show ?thesis
      by (auto simp: delete_file_def http_500_def split: sum.splits prod.splits)
  next
    case rn
    then show ?thesis
      by (auto simp: rename_file_def http_500_def split: sum.splits prod.splits)
  qed
qed

theorem remote_failure_is_http_500_witness:
  "download_file outage_drive ''id-a'' demo_store =
     Some (Inl (HTTPException 500 ''503 Service Unavailable''), demo_store) \<and>
   download_file no_metadata_drive ''id-a'' demo_store =
     Some (Inl (HTTPException 500 ''503 Service Unavailable''), demo_store) \<and>
   upload_file ''F'' outage_drive demo_payload demo_store =
     (Inl (HTTPException 500 ''503 Service Unavailable''), demo_store) \<and>
   delete_file outage_drive ''id-a'' demo_store =
     (Inl (HTTPException 500 ''503 Service Unavailable''), demo_store) \<and>
   rename_file outage_drive ''id-a'' ''z.pdf'' demo_store =
     (Inl (HTTPException 500 ''503 Service Unavailable''), demo_store) \<and>
   (\<exists>e'. HTTPException 500 ''503 Service Unavailable'' = HTTPException 500 (py_str e'))"
proof -
  note out = remote_failure_is_http_500
    [where svc = outage_drive and file_id = "''id-a''" and s = demo_store and cs = "[]"
      and e = unavailable and s' = demo_store and payload = demo_payload
      and folder_id = "''F''" and new_name = "''z.pdf''"
      and x = "HTTPException 500 ''503 Service Unavailable''" and t = demo_store]
  note nom = remote_failure_is_http_500
    [where svc = no_metadata_drive and file_id = "''id-a''" and s = demo_store
      and cs = "[[1, 2], [3, 4], [5]]" and sm = demo_store
      and e = unavailable and s' = demo_store]
  have c1: "download_file outage_drive ''id-a'' demo_store =
     Some (Inl (HTTPException 500 ''503 Service Unavailable''), demo_store)"
    using out outage_transfer by (simp add: unavailable_def)
  have g: "files_get no_metadata_drive ''id-a'' ''name'' demo_store = (Inl unavailable, demo_store)"
    by (simp add: no_metadata_drive_def)
  have c2: "download_file no_metadata_drive ''id-a'' demo_store =
     Some (Inl (HTTPException 500 ''503 Service Unavailable''), demo_store)"
    using nom no_metadata_transfer g by (simp add: unavailable_def)
  have h3: "files_create outage_drive \<lparr>md_name = filename demo_payload, md_parents = [''F'']\<rparr>
        \<lparr>media_fd = content demo_payload, media_mimetype = content_type demo_payload\<rparr>
        ''id, name'' demo_store = (Inl unavailable, demo_store)"
    by (simp add: outage_drive_def)
  have c3: "upload_file ''F'' outage_drive demo_payload demo_store =
     (Inl (HTTPException 500 ''503 Service Unavailable''), demo_store)"
    using out h3 by (simp add: unavailable_def)
  have h4: "files_delete outage_drive ''id-a'' demo_store = (Inl unavailable, demo_store)"
    by (simp add: outage_drive_def)
  have c4: "delete_file outage_drive ''id-a'' demo_store =
     (Inl (HTTPException 500 ''503 Service Unavailable''), demo_store)"
    using out h4 by (simp add: unavailable_def)
  have h5: "files_update outage_drive ''id-a'' [(''name'', ''z.pdf'')] ''id, name'' demo_store =
      (Inl unavailable, demo_store)"
    by (simp add: outage_drive_def)
  have c5: "rename_file outage_drive ''id-a'' ''z.pdf'' demo_store =
     (Inl (HTTPException 500 ''503 Service Unavailable''), demo_store)"
    using out h5 by (simp add: unavailable_def)
  have c6: "\<exists>e'. HTTPException 500 ''503 Service Unavailable'' = HTTPException 500 (py_str e')"
    using out c4 by blast
  from c1 c2 c3 c4 c5 c6 show ?thesis by blast
qed

section \<open>Rename and delete, applied twice\<close>

text \<open>
  Claim C7. Rename is idempotent: for a service that honours renaming, any file
  identifier present in the remote state and any name, applying the rename operation twice
  with the same name succeeds both times, and the file's name is that name after the
  first call and after the second.
\<close>

theorem rename_twice_same_name:
  assumes "honours_rename svc name_of" and "name_of s file_id \<noteq> None"
  shows "\<exists>sa sb.
     rename_file svc file_id new_name s = (Inr \<lparr>rn_id = file_id, rn_new_name = new_name\<rparr>, sa) \<and>
     name_of sa file_id = Some new_name \<and>
     rename_file svc file_id new_name sa = (Inr \<lparr>rn_id = file_id, rn_new_name = new_name\<rparr>, sb) \<and>
     name_of sb file_id = Some new_name"
proof -
  have step: "\<exists>s'. rename_file svc file_id new_name s0 =
        (Inr \<lparr>rn_id = file_id, rn_new_name = new_name\<rparr>, s') \<and> name_of s' file_id = Some new_name"
    if "name_of s0 file_id \<noteq> None" for s0
  proof -
    from assms(1) that obtain r s' where
      u: "files_update svc file_id [(''name'', new_name)] ''id, name'' s0 = (Inr r, s')" and
      r: "dict_get r ''id'' = Some file_id" "dict_get r ''name'' = Some new_name" and
      n: "name_of s' file_id = Some new_name"
      unfolding honours_rename_def by blast
    from u r have "rename_file svc file_id new_name s0 =
        (Inr \<lparr>rn_id = file_id, rn_new_name = new_name\<rparr>, s')"
      by (simp add: rename_file_def dict_item_def dict_get_def)
    with n show ?thesis by blast
  qed
  from step [OF assms(2)] obtain sa where
    a: "rename_file svc file_id new_name s = (Inr \<lparr>rn_id = file_id, rn_new_name = new_name\<rparr>, sa)"
    and na: "name_of sa file_id = Some new_name" by blast
  from na have "name_of sa file_id \<noteq> None" by simp
  from step [OF this] a na show ?thesis by blast
qed

theorem rename_twice_same_name_witness:
  "honours_rename (sim_drive ''F'') sim_name_of \<and> sim_name_of demo_store ''id-a'' \<noteq> None \<and>
   (\<exists>sa sb.
     rename_file (sim_drive ''F'') ''id-a'' ''z.pdf'' demo_store =
       (Inr \<lparr>rn_id = ''id-a'', rn_new_name = ''z.pdf''\<rparr>, sa) \<and>
     sim_name_of sa ''id-a'' = Some ''z.pdf'' \<and>
     rename_file (sim_drive ''F'') ''id-a'' ''z.pdf'' sa =
       (Inr \<lparr>rn_id = ''id-a'', rn_new_name = ''z.pdf''\<rparr>, sb) \<and>
     sim_name_of sb ''id-a'' = Some ''z.pdf'')"
proof -
  have h: "sim_name_of demo_store ''id-a'' \<noteq> None"
    by (simp add: sim_name_of_def demo_store_def)
  from rename_twice_same_name [OF sim_honours_rename h, of "''F''" "''z.pdf''"]
    sim_honours_rename [of "''F''"] h
  show ?thesis by blast
qed

text \<open>
  Claim C8. For a service that honours deletion and any file identifier present in the
  remote state, deleting it twice in sequence gives the confirmation message on the first
  call and an HTTP error of status 500 on the second: the second call never reports
  success.
\<close>

theorem delete_twice_fails_second:
  assumes "honours_delete svc name_of" and "name_of s file_id \<noteq> None"
  shows "\<exists>sa e sb.
     delete_file svc file_id s = (Inr (''File '' @ file_id @ '' deleted successfully''), sa) \<and>
     delete_file svc file_id sa = (Inl (HTTPException 500 (py_str e)), sb)"
proof -
  from assms obtain sa where
    d1: "files_delete svc file_id s = (Inr (), sa)" and gone: "name_of sa file_id = None"
    unfolding honours_delete_def by blast
  from assms(1) gone obtain e sb where d2: "files_delete svc file_id sa = (Inl e, sb)"
    unfolding honours_delete_def by blast
  from d1 have "delete_file svc file_id s =
      (Inr (''File '' @ file_id @ '' deleted successfully''), sa)"
    by (simp add: delete_file_def)
  moreover from d2 have "delete_file svc file_id sa = (Inl (HTTPException 500 (py_str e)), sb)"
    by (simp add: delete_file_def http_500_def)
  ultimately show ?thesis by blast
qed

theorem delete_twice_fails_second_witness:
  "honours_delete (sim_drive ''F'') sim_name_of \<and> sim_name_of demo_store ''id-a'' \<noteq> None \<and>
   (\<exists>sa e sb.
     delete_file (sim_drive ''F'') ''id-a'' demo_store =
       (Inr (''File '' @ ''id-a'' @ '' deleted successfully''), sa) \<and>
     delete_file (sim_drive ''F'') ''id-a'' sa = (Inl (HTTPException 500 (py_str e)), sb))"
proof -
  have h: "sim_name_of demo_store ''id-a'' \<noteq> None"
    by (simp add: sim_name_of_def demo_store_def)
  from delete_twice_fails_second [OF sim_honours_delete h, of "''F''"]
    sim_honours_delete [of "''F''"] h
  show ?thesis by blast
qed

end
